theory Spec2Isabelle
  imports Complex_Main "HOL-Library.Multiset"
begin

section \<open>The game session of \<^verbatim>\<open>server.js\<close>\<close>

text \<open>
  The server keeps one mutable object, \<^verbatim>\<open>gameState\<close>, and eight route handlers
  that read or update it. Each handler is modelled as a function from the request data,
  the answers of the outside world (the key probe, the chat completion, the random
  draws) and the state before, to the response and the state after. A handler runs to
  its end before the next request is taken up, as the specification assumes; requests
  that overlap while one of them awaits the network are outside the model.

  The body of a request is the object that \<^verbatim>\<open>express.json()\<close> has parsed. The fields
  \<^verbatim>\<open>player\<close> and \<^verbatim>\<open>word\<close> of a submit request are any JSON value or absent
  (\<open>jsval option\<close>, with \<open>None\<close> for \<^verbatim>\<open>undefined\<close>): the handler calls a string method
  on them, which throws on a value that has none. The key of a set-key request is
  only tested, passed on and stored, so any truthy key takes the path of a string that
  is not empty; it is a \<open>string option\<close>, with \<open>None\<close> for a key that is missing or
  \<^verbatim>\<open>null\<close>. The two string methods of the runtime that the handlers call, \<^verbatim>\<open>trim\<close>
  and \<^verbatim>\<open>toLowerCase\<close>, are parameters of the model (the record \<open>runtime\<close>): every
  theorem below holds for whatever functions they are, and \<open>ascii_runtime\<close> is an
  instance to evaluate with.
\<close>

subsection \<open>State\<close>

datatype phase = Setup | Submission | Playing

record submission =
  player :: string
  word :: string

record state =
  phase :: phase
  groqApiKey :: "string option"
  submissions :: "submission list"
  shuffledWords :: "string list"

definition createFreshState :: state where
  "createFreshState =
     \<lparr>phase = Setup, groqApiKey = None, submissions = [], shuffledWords = []\<rparr>"

subsection \<open>Responses\<close>

text \<open>
  A handler answers with status 200 and a JSON body, or with status 400 or 401 and an
  error message. The errors carry the names the specification gives them;
  \<open>KeyRequired\<close> is the 400 answer of \<^verbatim>\<open>/api/set-key\<close> to a request without a key.
  \<open>TypeError\<close> is no answer: the handler throws, and its promise is rejected with
  nothing in the handler to catch it.
\<close>

datatype error =
    KeyRequired
  | InvalidCredential
  | PhaseMismatch
  | MissingField
  | DuplicatePlayer
  | DuplicateWord
  | SimilarWord
  | InsufficientPlayers
  | NotStarted
  | TypeError

datatype reply =
    Ok
  | OkCount nat
  | Words "string list"
  | Attribution "submission list"
  | Status phase nat bool

type_synonym response = "error + reply"

subsection \<open>The runtime\<close>

record runtime =
  trim :: "string \<Rightarrow> string"
  toLowerCase :: "string \<Rightarrow> string"

text \<open>\<^verbatim>\<open>!key\<close> on a string or \<^verbatim>\<open>null\<close>: true for \<^verbatim>\<open>null\<close> and for the empty string.\<close>

definition js_not :: "string option \<Rightarrow> bool" where
  "js_not v = (case v of None \<Rightarrow> True | Some t \<Rightarrow> t = [])"

text \<open>The string that a key which is not falsy stands for.\<close>

definition or_empty :: "string option \<Rightarrow> string" where
  "or_empty v = (case v of None \<Rightarrow> [] | Some t \<Rightarrow> t)"

text \<open>
  The values \<^verbatim>\<open>JSON.parse\<close> can return, and their truthiness. A number is falsy when
  it is zero; \<^verbatim>\<open>JSON.parse\<close> never returns \<^verbatim>\<open>NaN\<close>.
\<close>

datatype jsval =
    JNull
  | JBool bool
  | JNum real
  | JStr string
  | JArr "jsval list"
  | JObj "(string \<times> jsval) list"

fun truthy :: "jsval \<Rightarrow> bool" where
  "truthy JNull = False"
| "truthy (JBool b) = b"
| "truthy (JNum n) = (n \<noteq> 0)"
| "truthy (JStr t) = (t \<noteq> [])"
| "truthy (JArr _) = True"
| "truthy (JObj _) = True"

text \<open>\<^verbatim>\<open>(word || '')\<close> on a field that is any JSON value or \<^verbatim>\<open>undefined\<close>.\<close>

definition js_or_empty :: "jsval option \<Rightarrow> jsval" where
  "js_or_empty v =
     (case v of
        None \<Rightarrow> JStr []
      | Some x \<Rightarrow> if truthy x then x else JStr [])"

subsection \<open>The Groq helpers\<close>

text \<open>
  \<^verbatim>\<open>validateApiKey\<close> sends one request; the network either makes \<^verbatim>\<open>fetch\<close> throw or
  answers with a response whose \<^verbatim>\<open>ok\<close> flag is read. The network is a function of the
  key that is sent.
\<close>

datatype probe_outcome = ProbeRejected | ProbeResponse bool

definition validateApiKey :: "(string \<Rightarrow> probe_outcome) \<Rightarrow> string \<Rightarrow> bool" where
  "validateApiKey fetch key =
     (case fetch key of
        ProbeRejected \<Rightarrow> False
      | ProbeResponse ok \<Rightarrow> ok)"

text \<open>
  \<^verbatim>\<open>checkSimilarity\<close> sends one chat request and walks through the answer. Each
  constructor of \<open>chat_outcome\<close> is one way that walk can end, in the order of the
  source lines 182 to 202:
  \<^item> \<open>FetchRejected\<close>: \<^verbatim>\<open>fetch\<close> throws (the endpoint is unreachable);
  \<^item> \<open>StatusNotOk\<close>: \<^verbatim>\<open>resp.ok\<close> is false;
  \<^item> \<open>BodyNotJson\<close>: \<^verbatim>\<open>resp.json()\<close> throws;
  \<^item> \<open>ContentMissing\<close>: \<^verbatim>\<open>data.choices[0].message.content.trim()\<close> throws;
  \<^item> \<open>NoBraces\<close>: the text has no match of \<^verbatim>\<open>/\{[\s\S]*\}/\<close>;
  \<^item> \<open>ParseFailed\<close>: \<^verbatim>\<open>JSON.parse\<close> throws on the match;
  \<^item> \<open>Parsed obj\<close>: \<^verbatim>\<open>JSON.parse\<close> returns; the match starts with a brace, so the
    value is an object, given by its properties.
  The request is built from the new word, the existing words and the key, so the
  network is a function of the three. The result \<open>None\<close> is \<^verbatim>\<open>null\<close>.
\<close>

datatype chat_outcome =
    FetchRejected
  | StatusNotOk
  | BodyNotJson
  | ContentMissing
  | NoBraces
  | ParseFailed
  | Parsed "(string \<times> jsval) list"

type_synonym chat = "string \<Rightarrow> string list \<Rightarrow> string \<Rightarrow> chat_outcome"

definition checkSimilarity ::
  "chat \<Rightarrow> string \<Rightarrow> string list \<Rightarrow> string option \<Rightarrow> (string \<times> jsval) list option" where
  "checkSimilarity fetch newWord existingWords apiKey =
     (if existingWords = [] \<or> js_not apiKey then None
      else (case fetch newWord existingWords (or_empty apiKey) of
              FetchRejected \<Rightarrow> None
            | StatusNotOk \<Rightarrow> None
            | BodyNotJson \<Rightarrow> None
            | ContentMissing \<Rightarrow> None
            | NoBraces \<Rightarrow> None
            | ParseFailed \<Rightarrow> None
            | Parsed obj \<Rightarrow> Some obj))"

text \<open>\<^verbatim>\<open>sim && sim.is_similar\<close>, as the condition of an \<^verbatim>\<open>if\<close>.\<close>

definition sim_is_similar :: "(string \<times> jsval) list option \<Rightarrow> bool" where
  "sim_is_similar sim =
     (case sim of
        None \<Rightarrow> False
      | Some obj \<Rightarrow>
          (case map_of obj ''is_similar'' of
             None \<Rightarrow> False
           | Some v \<Rightarrow> truthy v))"

subsection \<open>The shuffle\<close>

text \<open>
  \<^verbatim>\<open>[...submissions].sort(() => Math.random() - 0.5)\<close> sorts a copy of the list with a
  comparator that ignores its arguments and answers the next draw of \<^verbatim>\<open>Math.random\<close>
  less one half. The draws are a sequence \<open>rnd\<close>, read at an index that counts the
  calls of the comparator.

  \<^verbatim>\<open>Array.prototype.sort\<close> belongs to the engine. The model follows what V8 does with
  an array of fewer than 64 elements, which is one run:
  \<^item> \<open>count_and_make_run\<close> compares the second element with the first; a negative
    answer makes the run a descending one. It then compares each element with the one
    before it, as long as the answers keep the direction, and reverses a descending
    run in place.
  \<^item> \<open>binary_insertion\<close> inserts each element behind the run into the part before it,
    at the place a binary search finds: a negative answer of the comparator for the
    element and the middle one goes on in the left half, any other in the right half.
  From 64 elements on the engine cuts the array into several runs of this kind and
  merges them; the model still treats the whole array as one run. The result is a
  permutation in either case.
\<close>

definition comparefn :: "(nat \<Rightarrow> real) \<Rightarrow> nat \<Rightarrow> real" where
  "comparefn rnd k = rnd k - 1 / 2"

text \<open>The number of further elements of the run, and the index of the next draw.\<close>

fun count_run :: "(nat \<Rightarrow> real) \<Rightarrow> nat \<Rightarrow> bool \<Rightarrow> nat \<Rightarrow> nat \<times> nat" where
  "count_run rnd k isDescending 0 = (0, k)"
| "count_run rnd k isDescending (Suc n) =
     (if (if isDescending then comparefn rnd k \<ge> 0 else comparefn rnd k < 0)
      then (0, Suc k)
      else (case count_run rnd (Suc k) isDescending n of (len, k') \<Rightarrow> (Suc len, k')))"

text \<open>For a list of two elements or more: the list, the length of the run, the next draw.\<close>

definition count_and_make_run :: "(nat \<Rightarrow> real) \<Rightarrow> 'a list \<Rightarrow> 'a list \<times> nat \<times> nat" where
  "count_and_make_run rnd xs =
     (let isDescending = comparefn rnd 0 < 0
      in case count_run rnd 1 isDescending (length xs - 2) of
           (len, k) \<Rightarrow>
             let runLength = 2 + len
             in (if isDescending then rev (take runLength xs) @ drop runLength xs else xs,
                 runLength, k))"

function binary_search :: "(nat \<Rightarrow> real) \<Rightarrow> nat \<Rightarrow> nat \<Rightarrow> nat \<Rightarrow> nat \<times> nat" where
  "binary_search rnd k left right =
     (if left < right
      then if comparefn rnd k < 0
           then binary_search rnd (Suc k) left (left + (right - left) div 2)
           else binary_search rnd (Suc k) (Suc (left + (right - left) div 2)) right
      else (left, k))"
  by pat_completeness auto
termination
  by (relation "measure (\<lambda>(rnd, k, left, right). right - left)") auto

declare binary_search.simps [simp del]

fun binary_insertion :: "(nat \<Rightarrow> real) \<Rightarrow> nat \<Rightarrow> 'a list \<Rightarrow> 'a list \<Rightarrow> 'a list" where
  "binary_insertion rnd k pre [] = pre"
| "binary_insertion rnd k pre (pivot # rest) =
     (case binary_search rnd k 0 (length pre) of
        (left, k') \<Rightarrow>
          binary_insertion rnd k' (take left pre @ pivot # drop left pre) rest)"

definition random_sort :: "(nat \<Rightarrow> real) \<Rightarrow> 'a list \<Rightarrow> 'a list" where
  "random_sort rnd xs =
     (if length xs < 2 then xs
      else case count_and_make_run rnd xs of
             (ys, runLength, k) \<Rightarrow>
               binary_insertion rnd k (take runLength ys) (drop runLength ys))"

subsection \<open>The route handlers\<close>

text \<open>\<^verbatim>\<open>GET /api/state\<close>; the player URL comes from the environment and is left out.\<close>

definition api_state :: "state \<Rightarrow> response \<times> state" where
  "api_state s =
     (Inr (Status (phase s) (length (submissions s)) (\<not> js_not (groqApiKey s))), s)"

text \<open>\<^verbatim>\<open>POST /api/set-key\<close>\<close>

definition api_set_key ::
  "(string \<Rightarrow> probe_outcome) \<Rightarrow> string option \<Rightarrow> state \<Rightarrow> response \<times> state" where
  "api_set_key fetch key s =
     (if js_not key then (Inl KeyRequired, s)
      else if \<not> validateApiKey fetch (or_empty key) then (Inl InvalidCredential, s)
      else (Inr Ok, s\<lparr>groqApiKey := key, phase := Submission\<rparr>))"

text \<open>
  \<^verbatim>\<open>POST /api/submit\<close>. The two local constants \<^verbatim>\<open>cleanWord\<close> and \<^verbatim>\<open>cleanName\<close>
  are computed first, the word before the name: \<open>cleanWord_of\<close> and \<open>cleanName_of\<close>.
  Calling \<^verbatim>\<open>trim\<close> on a value that is not a string (a number, \<^verbatim>\<open>true\<close>, an array, an
  object) throws a TypeError.
\<close>

definition cleanWord_of :: "runtime \<Rightarrow> jsval option \<Rightarrow> error + string" where
  "cleanWord_of rt word_field =
     (case js_or_empty word_field of
        JStr t \<Rightarrow> Inr (toLowerCase rt (trim rt t))
      | _ \<Rightarrow> Inl TypeError)"

definition cleanName_of :: "runtime \<Rightarrow> jsval option \<Rightarrow> error + string" where
  "cleanName_of rt player_field =
     (case js_or_empty player_field of
        JStr t \<Rightarrow> Inr (trim rt t)
      | _ \<Rightarrow> Inl TypeError)"

definition api_submit ::
  "runtime \<Rightarrow> chat \<Rightarrow> jsval option \<Rightarrow> jsval option \<Rightarrow> state \<Rightarrow> response \<times> state" where
  "api_submit rt fetch player_field word_field s =
     (if phase s \<noteq> Submission then (Inl PhaseMismatch, s)
      else
        case cleanWord_of rt word_field of
          Inl thrown \<Rightarrow> (Inl thrown, s)
        | Inr cleanWord \<Rightarrow>
        case cleanName_of rt player_field of
          Inl thrown \<Rightarrow> (Inl thrown, s)
        | Inr cleanName \<Rightarrow>
          if cleanName = [] \<or> cleanWord = [] then (Inl MissingField, s)
          else if list_ex (\<lambda>e. toLowerCase rt (player e) = toLowerCase rt cleanName)
                    (submissions s)
          then (Inl DuplicatePlayer, s)
          else if list_ex (\<lambda>e. word e = cleanWord) (submissions s)
          then (Inl DuplicateWord, s)
          else
            let existingWords = map word (submissions s);
                sim = checkSimilarity fetch cleanWord existingWords (groqApiKey s)
            in
              if sim_is_similar sim then (Inl SimilarWord, s)
              else
                let s' = s\<lparr>submissions :=
                             submissions s @ [\<lparr>player = cleanName, word = cleanWord\<rparr>]\<rparr>
                in (Inr (OkCount (length (submissions s'))), s'))"

text \<open>\<^verbatim>\<open>POST /api/start\<close>\<close>

definition api_start :: "(nat \<Rightarrow> real) \<Rightarrow> state \<Rightarrow> response \<times> state" where
  "api_start rnd s =
     (if length (submissions s) < 2 then (Inl InsufficientPlayers, s)
      else (Inr Ok,
            s\<lparr>phase := Playing,
              shuffledWords := map word (random_sort rnd (submissions s))\<rparr>))"

text \<open>\<^verbatim>\<open>GET /api/words\<close> and \<^verbatim>\<open>GET /api/attribution\<close>\<close>

definition api_words :: "state \<Rightarrow> response \<times> state" where
  "api_words s =
     (if phase s \<noteq> Playing then (Inl NotStarted, s)
      else (Inr (Words (shuffledWords s)), s))"

definition api_attribution :: "state \<Rightarrow> response \<times> state" where
  "api_attribution s =
     (if phase s \<noteq> Playing then (Inl NotStarted, s)
      else (Inr (Attribution (submissions s)), s))"

text \<open>\<^verbatim>\<open>POST /api/reset\<close> and \<^verbatim>\<open>POST /api/full-reset\<close>\<close>

definition api_reset :: "state \<Rightarrow> response \<times> state" where
  "api_reset s =
     (let key = groqApiKey s
      in (Inr Ok, createFreshState\<lparr>groqApiKey := key, phase := Submission\<rparr>))"

definition api_full_reset :: "state \<Rightarrow> response \<times> state" where
  "api_full_reset s = (Inr Ok, createFreshState)"

subsection \<open>Operations and runs\<close>

text \<open>
  One operation of the session manager with the request data and the outside world's
  answers it meets; \<open>step\<close> is the state after the handler has run, \<open>run\<close> a sequence
  of operations, one after the other.
\<close>

datatype op =
    ConfigureSecret "string option" "string \<Rightarrow> probe_outcome"
  | SubmitWord "jsval option" "jsval option" chat
  | StartRound "nat \<Rightarrow> real"
  | GetWords
  | GetAttribution
  | NewRound
  | FullReset
  | GetStatus

fun step :: "runtime \<Rightarrow> state \<Rightarrow> op \<Rightarrow> state" where
  "step rt s (ConfigureSecret key fetch) = snd (api_set_key fetch key s)"
| "step rt s (SubmitWord player_field word_field fetch) =
     snd (api_submit rt fetch player_field word_field s)"
| "step rt s (StartRound rnd) = snd (api_start rnd s)"
| "step rt s GetWords = snd (api_words s)"
| "step rt s GetAttribution = snd (api_attribution s)"
| "step rt s NewRound = snd (api_reset s)"
| "step rt s FullReset = snd (api_full_reset s)"
| "step rt s GetStatus = snd (api_state s)"

fun run :: "runtime \<Rightarrow> state \<Rightarrow> op list \<Rightarrow> state" where
  "run rt s [] = s"
| "run rt s (a # as) = run rt (step rt s a) as"

text \<open>A sequence of submit requests, each with the chat endpoint it meets.\<close>

fun submit_all ::
  "runtime \<Rightarrow> state \<Rightarrow> (jsval option \<times> jsval option \<times> chat) list \<Rightarrow> state" where
  "submit_all rt s [] = s"
| "submit_all rt s ((player_field, word_field, fetch) # calls) =
     submit_all rt (snd (api_submit rt fetch player_field word_field s)) calls"

text \<open>
  No two entries with the same lower-cased player name, and no two with the same word
  (the stored word is the trimmed, lower-cased one).
\<close>

definition unique_submissions :: "runtime \<Rightarrow> submission list \<Rightarrow> bool" where
  "unique_submissions rt subs =
     (distinct (map (\<lambda>e. toLowerCase rt (player e)) subs) \<and> distinct (map word subs))"

text \<open>The operation is a key change that succeeds while a round is being played.\<close>

fun rekeys_while_playing :: "state \<Rightarrow> op \<Rightarrow> bool" where
  "rekeys_while_playing s (ConfigureSecret key fetch) =
     (phase s = Playing \<and> fst (api_set_key fetch key s) = Inr Ok)"
| "rekeys_while_playing s _ = False"

fun rekey_free :: "runtime \<Rightarrow> state \<Rightarrow> op list \<Rightarrow> bool" where
  "rekey_free rt s [] = True"
| "rekey_free rt s (a # as) =
     (\<not> rekeys_while_playing s a \<and> rekey_free rt (step rt s a) as)"

fun is_reset :: "op \<Rightarrow> bool" where
  "is_reset NewRound = True"
| "is_reset FullReset = True"
| "is_reset _ = False"

text \<open>
  The chat request ended without a parsed object: the endpoint was unreachable, or
  answered with an error status, a body that is not JSON, or a malformed one.
\<close>

fun unavailable :: "chat_outcome \<Rightarrow> bool" where
  "unavailable (Parsed _) = False"
| "unavailable _ = True"

subsection \<open>An instance to evaluate with\<close>

text \<open>
  The two string methods on ASCII text: the letters A to Z go to a to z, and the white
  space that \<^verbatim>\<open>trim\<close> removes is tab, line feed, vertical tab, form feed, carriage
  return and space.
\<close>

definition ascii_lower :: "char \<Rightarrow> char" where
  "ascii_lower c =
     (case map_of (zip ''ABCDEFGHIJKLMNOPQRSTUVWXYZ'' ''abcdefghijklmnopqrstuvwxyz'') c of
        None \<Rightarrow> c
      | Some d \<Rightarrow> d)"

definition ascii_space :: "char \<Rightarrow> bool" where
  "ascii_space c = (c \<in> set [CHR 0x09, CHR 0x0A, CHR 0x0B, CHR 0x0C, CHR 0x0D, CHR '' ''])"

definition ascii_trim :: "string \<Rightarrow> string" where
  "ascii_trim t = rev (dropWhile ascii_space (rev (dropWhile ascii_space t)))"

definition ascii_runtime :: runtime where
  "ascii_runtime = \<lparr>trim = ascii_trim, toLowerCase = map ascii_lower\<rparr>"

text \<open>Chat endpoints and key probes that always give the same answer, and two draws.\<close>

definition chat_down :: chat where
  "chat_down newWord existingWords key = FetchRejected"

definition chat_says :: "jsval \<Rightarrow> chat" where
  "chat_says v newWord existingWords key = Parsed [(''is_similar'', v)]"

definition probe_ok :: "string \<Rightarrow> probe_outcome" where
  "probe_ok key = ProbeResponse True"

definition probe_denied :: "string \<Rightarrow> probe_outcome" where
  "probe_denied key = ProbeResponse False"

definition probe_down :: "string \<Rightarrow> probe_outcome" where
  "probe_down key = ProbeRejected"

definition draws_low :: "nat \<Rightarrow> real" where
  "draws_low k = 1 / 4"

definition draws_high :: "nat \<Rightarrow> real" where
  "draws_high k = 3 / 4"

definition two_players :: state where
  "two_players =
     \<lparr>phase = Submission, groqApiKey = None,
      submissions = [\<lparr>player = ''Ann'', word = ''lion''\<rparr>,
                     \<lparr>player = ''Bob'', word = ''tiger''\<rparr>],
      shuffledWords = []\<rparr>"

definition one_player_keyed :: state where
  "one_player_keyed =
     \<lparr>phase = Submission, groqApiKey = Some ''gsk'',
      submissions = [\<lparr>player = ''Ann'', word = ''lion''\<rparr>],
      shuffledWords = []\<rparr>"

text \<open>The scenario of the specification: four submit requests, the chat endpoint down.\<close>

definition scenario_calls :: "(jsval option \<times> jsval option \<times> chat) list" where
  "scenario_calls =
     [(Some (JStr ''Ann''), Some (JStr ''lion''), chat_down),
      (Some (JStr ''Bob''), Some (JStr ''lion''), chat_down),
      (Some (JStr ''ann''), Some (JStr ''tiger''), chat_down),
      (Some (JStr ''Bob''), Some (JStr '' Tiger ''), chat_down)]"

lemmas evals =
  api_state_def api_set_key_def api_submit_def api_start_def api_words_def
  api_attribution_def api_reset_def api_full_reset_def createFreshState_def
  cleanWord_of_def cleanName_of_def js_or_empty_def or_empty_def js_not_def
  validateApiKey_def checkSimilarity_def sim_is_similar_def random_sort_def
  count_and_make_run_def binary_search.simps comparefn_def
  ascii_runtime_def ascii_trim_def ascii_space_def ascii_lower_def
  chat_down_def chat_says_def probe_ok_def probe_denied_def probe_down_def
  draws_low_def draws_high_def two_players_def one_player_keyed_def
  scenario_calls_def unique_submissions_def Let_def

section \<open>Helper facts\<close>

subsection \<open>The sort permutes\<close>

lemma mset_take_drop: "mset (take n xs) + mset (drop n xs) = mset xs"
  by (metis append_take_drop_id mset_append)

lemma mset_count_and_make_run: "mset (fst (count_and_make_run rnd xs)) = mset xs"
  by (simp add: count_and_make_run_def Let_def mset_take_drop split: prod.splits)

lemma mset_binary_insertion: "mset (binary_insertion rnd k pre rest) = mset pre + mset rest"
proof (induction rest arbitrary: k pre)
  case Nil
  show ?case by simp
next
  case (Cons pivot rest)
  obtain left k' where found: "binary_search rnd k 0 (length pre) = (left, k')"
    by (cases "binary_search rnd k 0 (length pre)")
  have "mset (take left pre @ pivot # drop left pre) = add_mset pivot (mset pre)"
    by (simp add: mset_take_drop)
  with Cons.IH [of k' "take left pre @ pivot # drop left pre"] show ?case
    by (simp add: found)
qed

lemma mset_random_sort: "mset (random_sort rnd xs) = mset xs"
proof (cases "length xs < 2")
  case True
  then show ?thesis by (simp add: random_sort_def)
next
  case False
  obtain ys n k where made: "count_and_make_run rnd xs = (ys, n, k)"
    by (cases "count_and_make_run rnd xs")
  then have "mset ys = mset xs"
    using mset_count_and_make_run [of rnd xs] by simp
  with False show ?thesis
    by (simp add: random_sort_def made mset_binary_insertion mset_take_drop)
qed

lemma mset_shuffled_words:
  "mset (map word (random_sort rnd subs)) = mset (map word subs)"
proof -
  have "mset (map word (random_sort rnd subs)) = image_mset word (mset (random_sort rnd subs))"
    by simp
  also have "\<dots> = image_mset word (mset subs)"
    by (simp only: mset_random_sort)
  finally show ?thesis by simp
qed

subsection \<open>What one submit request can do\<close>

lemma submit_cases:
  assumes "api_submit rt fetch p w s = (r, s')"
  shows "s' = s \<or>
     (\<exists>cleanName cleanWord.
        \<not> list_ex (\<lambda>e. toLowerCase rt (player e) = toLowerCase rt cleanName) (submissions s) \<and>
        \<not> list_ex (\<lambda>e. word e = cleanWord) (submissions s) \<and>
        s' = s\<lparr>submissions :=
                 submissions s @ [\<lparr>player = cleanName, word = cleanWord\<rparr>]\<rparr>)"
  using assms by (auto simp: api_submit_def Let_def split: if_splits sum.splits)

lemma submit_unique:
  assumes "unique_submissions rt (submissions s)"
  shows "unique_submissions rt (submissions (snd (api_submit rt fetch p w s)))"
proof -
  obtain r s' where eq: "api_submit rt fetch p w s = (r, s')"
    by (cases "api_submit rt fetch p w s")
  from submit_cases [OF eq] assms show ?thesis
    unfolding eq by (fastforce simp: unique_submissions_def list_ex_iff)
qed

lemma submit_phase: "phase (snd (api_submit rt fetch p w s)) = phase s"
  by (simp add: api_submit_def Let_def split: sum.splits)

lemma submit_key: "groqApiKey (snd (api_submit rt fetch p w s)) = groqApiKey s"
  by (simp add: api_submit_def Let_def split: sum.splits)

lemma submit_shuffled: "shuffledWords (snd (api_submit rt fetch p w s)) = shuffledWords s"
  by (simp add: api_submit_def Let_def split: sum.splits)

lemma submit_length:
  "length (submissions s) \<le> length (submissions (snd (api_submit rt fetch p w s)))"
  by (simp add: api_submit_def Let_def split: sum.splits)

lemma check_skipped:
  "existingWords = [] \<or> js_not apiKey \<Longrightarrow>
     checkSimilarity fetch newWord existingWords apiKey = None"
  by (auto simp: checkSimilarity_def)

lemma submit_without_check:
  assumes "submissions s = [] \<or> js_not (groqApiKey s)"
  shows "api_submit rt fetch p w s = api_submit rt fetch' p w s"
proof -
  have "checkSimilarity fetch cw (map word (submissions s)) (groqApiKey s) = None"
    and "checkSimilarity fetch' cw (map word (submissions s)) (groqApiKey s) = None" for cw
    using assms by (simp_all add: check_skipped)
  then show ?thesis by (simp add: api_submit_def Let_def split: sum.splits)
qed

lemma submit_all_without_key:
  assumes "js_not (groqApiKey s)"
  shows "submit_all rt s (map (\<lambda>(p, w, fetch). (p, w, g fetch)) calls) = submit_all rt s calls"
  using assms
proof (induction calls arbitrary: s)
  case Nil
  show ?case by simp
next
  case (Cons c calls)
  obtain p w fetch where c: "c = (p, w, fetch)" by (cases c)
  have same: "api_submit rt (g fetch) p w s = api_submit rt fetch p w s"
    using Cons.prems by (simp add: submit_without_check [of s rt "g fetch" p w fetch])
  have "js_not (groqApiKey (snd (api_submit rt fetch p w s)))"
    using Cons.prems by (simp add: submit_key)
  from Cons.IH [OF this] show ?case by (simp add: c same)
qed

text \<open>
  A submit request whose two fields are strings, or falsy: the checks in the order of
  the source, each failure leaving the state as it was, and the entry that is appended
  when the request is accepted.
\<close>

lemma submit_on_strings:
  assumes "cleanWord_of rt w = Inr cleanWord" and "cleanName_of rt p = Inr cleanName"
  shows "api_submit rt fetch p w s =
     (if phase s \<noteq> Submission then (Inl PhaseMismatch, s)
      else if cleanName = [] \<or> cleanWord = [] then (Inl MissingField, s)
      else if \<exists>e \<in> set (submissions s). toLowerCase rt (player e) = toLowerCase rt cleanName
      then (Inl DuplicatePlayer, s)
      else if \<exists>e \<in> set (submissions s). word e = cleanWord
      then (Inl DuplicateWord, s)
      else if sim_is_similar
                (checkSimilarity fetch cleanWord (map word (submissions s)) (groqApiKey s))
      then (Inl SimilarWord, s)
      else (Inr (OkCount (Suc (length (submissions s)))),
            s\<lparr>submissions :=
                submissions s @ [\<lparr>player = cleanName, word = cleanWord\<rparr>]\<rparr>))"
  using assms by (simp add: api_submit_def Let_def list_ex_iff)

lemma clean_of_string:
  "cleanWord_of rt (Some (JStr t)) = Inr (toLowerCase rt (trim rt t))"
  "cleanName_of rt (Some (JStr t)) = Inr (trim rt t)"
  "cleanWord_of rt None = Inr (toLowerCase rt (trim rt []))"
  "cleanName_of rt None = Inr (trim rt [])"
  by (simp_all add: cleanWord_of_def cleanName_of_def js_or_empty_def)

text \<open>In phase Submission, a field that is truthy and not a string makes the handler throw.\<close>

lemma clean_of_non_string:
  assumes "truthy v" and "\<forall>t. v \<noteq> JStr t"
  shows "cleanWord_of rt (Some v) = Inl TypeError" and "cleanName_of rt (Some v) = Inl TypeError"
  using assms by (cases v; simp add: cleanWord_of_def cleanName_of_def js_or_empty_def)+

lemma submit_throws:
  assumes "phase s = Submission" and "truthy v" and "\<forall>t. v \<noteq> JStr t"
  shows "api_submit rt fetch p (Some v) s = (Inl TypeError, s)"
  using assms by (simp add: api_submit_def clean_of_non_string)

text \<open>
  When the similarity check is reached: the request is refused as similar exactly when
  a key is set, there is an earlier submission, and the chat request ends with a parsed
  object whose property \<^verbatim>\<open>is_similar\<close> is truthy.
\<close>

lemma similar_iff:
  "sim_is_similar (checkSimilarity fetch newWord existingWords apiKey) \<longleftrightarrow>
     (\<exists>key obj v. apiKey = Some key \<and> key \<noteq> [] \<and> existingWords \<noteq> []
        \<and> fetch newWord existingWords key = Parsed obj
        \<and> map_of obj ''is_similar'' = Some v \<and> truthy v)"
  by (auto simp: sim_is_similar_def checkSimilarity_def js_not_def or_empty_def
           split: option.splits chat_outcome.splits)

lemma unavailable_not_similar:
  assumes "\<forall>key. apiKey = Some key \<longrightarrow> unavailable (fetch newWord existingWords key)"
  shows "\<not> sim_is_similar (checkSimilarity fetch newWord existingWords apiKey)"
  using assms unfolding similar_iff by auto

subsection \<open>What one operation can do\<close>

lemma step_keeps_shuffled_invariant:
  assumes "shuffledWords s \<noteq> [] \<longrightarrow> phase s = Playing"
    and "\<not> rekeys_while_playing s a"
  shows "shuffledWords (step rt s a) \<noteq> [] \<longrightarrow> phase (step rt s a) = Playing"
proof (cases a)
  case (ConfigureSecret key fetch)
  with assms show ?thesis by (auto simp: api_set_key_def split: if_splits)
next
  case (SubmitWord p w fetch)
  with assms show ?thesis by (simp add: submit_phase submit_shuffled)
next
  case (StartRound rnd)
  with assms show ?thesis by (simp add: api_start_def)
next
  case GetWords
  with assms show ?thesis by (simp add: api_words_def)
next
  case GetAttribution
  with assms show ?thesis by (simp add: api_attribution_def)
next
  case NewRound
  then show ?thesis by (simp add: api_reset_def createFreshState_def)
next
  case FullReset
  then show ?thesis by (simp add: api_full_reset_def createFreshState_def)
next
  case GetStatus
  with assms show ?thesis by (simp add: api_state_def)
qed

lemma run_keeps_shuffled_invariant:
  assumes "shuffledWords s \<noteq> [] \<longrightarrow> phase s = Playing"
    and "rekey_free rt s ops"
  shows "shuffledWords (run rt s ops) \<noteq> [] \<longrightarrow> phase (run rt s ops) = Playing"
  using assms
proof (induction ops arbitrary: s)
  case Nil
  then show ?case by simp
next
  case (Cons a ops)
  from Cons.prems have now: "\<not> rekeys_while_playing s a"
    and rest: "rekey_free rt (step rt s a) ops"
    by simp_all
  have "shuffledWords (step rt s a) \<noteq> [] \<longrightarrow> phase (step rt s a) = Playing"
    using Cons.prems(1) now by (rule step_keeps_shuffled_invariant)
  from Cons.IH [OF this rest] show ?case by simp
qed

lemma step_keeps_players:
  assumes "\<not> is_reset a"
  shows "length (submissions s) \<le> length (submissions (step rt s a))"
proof (cases a)
  case (ConfigureSecret key fetch)
  then show ?thesis by (simp add: api_set_key_def)
next
  case (SubmitWord p w fetch)
  then show ?thesis by (simp add: submit_length)
next
  case (StartRound rnd)
  then show ?thesis by (simp add: api_start_def)
next
  case GetWords
  then show ?thesis by (simp add: api_words_def)
next
  case GetAttribution
  then show ?thesis by (simp add: api_attribution_def)
next
  case NewRound
  with assms show ?thesis by simp
next
  case FullReset
  with assms show ?thesis by simp
next
  case GetStatus
  then show ?thesis by (simp add: api_state_def)
qed

lemma run_keeps_players:
  assumes "list_all (\<lambda>a. \<not> is_reset a) ops"
  shows "length (submissions s) \<le> length (submissions (run rt s ops))"
  using assms
proof (induction ops arbitrary: s)
  case Nil
  show ?case by simp
next
  case (Cons a ops)
  then have "length (submissions s) \<le> length (submissions (step rt s a))"
    and "length (submissions (step rt s a)) \<le> length (submissions (run rt (step rt s a) ops))"
    by (simp_all add: step_keeps_players)
  then show ?case by simp
qed

text \<open>
  The start handler does not read the phase. After a start that succeeded, and after
  any further operations other than the two resets, a start request succeeds again and
  computes the shuffled words anew.
\<close>

lemma start_again_succeeds:
  assumes "fst (api_start rnd s) = Inr Ok"
    and "list_all (\<lambda>a. \<not> is_reset a) ops"
  shows "fst (api_start rnd' (run rt (snd (api_start rnd s)) ops)) = Inr Ok
         \<and> phase (snd (api_start rnd' (run rt (snd (api_start rnd s)) ops))) = Playing
         \<and> shuffledWords (snd (api_start rnd' (run rt (snd (api_start rnd s)) ops)))
             = map word (random_sort rnd' (submissions (run rt (snd (api_start rnd s)) ops)))"
proof -
  let ?s1 = "snd (api_start rnd s)"
  let ?s2 = "run rt ?s1 ops"
  from assms(1) have "2 \<le> length (submissions s)"
    by (auto simp: api_start_def split: if_splits)
  then have "2 \<le> length (submissions ?s1)"
    by (simp add: api_start_def)
  also have "length (submissions ?s1) \<le> length (submissions ?s2)"
    using assms(2) by (rule run_keeps_players)
  finally have enough: "\<not> length (submissions ?s2) < 2"
    by simp
  then have "api_start rnd' ?s2 =
      (Inr Ok, ?s2\<lparr>phase := Playing,
                   shuffledWords := map word (random_sort rnd' (submissions ?s2))\<rparr>)"
    by (simp add: api_start_def)
  then show ?thesis by simp
qed

section \<open>Submissions stay unique\<close>

text \<open>
  Claim C1. Start in phase Submission with a submissions list that has no two entries
  with the same lower-cased player name and no two with the same word. After any
  sequence of submit requests, whatever the chat endpoint answers to each, the list
  still has that property, and the phase is still Submission.
\<close>

theorem C1_submissions_unique:
  assumes "phase s = Submission"
    and "unique_submissions rt (submissions s)"
  shows "unique_submissions rt (submissions (submit_all rt s calls))
         \<and> phase (submit_all rt s calls) = Submission"
  using assms
proof (induction calls arbitrary: s)
  case Nil
  then show ?case by simp
next
  case (Cons c calls)
  obtain p w fetch where c: "c = (p, w, fetch)" by (cases c)
  let ?s = "snd (api_submit rt fetch p w s)"
  have "phase ?s = Submission"
    using Cons.prems(1) by (simp add: submit_phase)
  moreover have "unique_submissions rt (submissions ?s)"
    using Cons.prems(2) by (rule submit_unique)
  ultimately show ?case
    using Cons.IH [of ?s] by (simp add: c)
qed

theorem C1_submissions_unique_witness:
  "phase (snd (api_reset createFreshState)) = Submission
   \<and> unique_submissions ascii_runtime (submissions (snd (api_reset createFreshState)))
   \<and> submissions (submit_all ascii_runtime (snd (api_reset createFreshState)) scenario_calls)
       = [\<lparr>player = ''Ann'', word = ''lion''\<rparr>, \<lparr>player = ''Bob'', word = ''tiger''\<rparr>]
   \<and> unique_submissions ascii_runtime
        (submissions (submit_all ascii_runtime (snd (api_reset createFreshState)) scenario_calls))
   \<and> phase (submit_all ascii_runtime (snd (api_reset createFreshState)) scenario_calls)
       = Submission"
proof -
  have h1: "phase (snd (api_reset createFreshState)) = Submission"
    by (simp add: api_reset_def createFreshState_def)
  have h2: "unique_submissions ascii_runtime (submissions (snd (api_reset createFreshState)))"
    by (simp add: api_reset_def createFreshState_def unique_submissions_def)
  have run: "submissions (submit_all ascii_runtime (snd (api_reset createFreshState)) scenario_calls)
       = [\<lparr>player = ''Ann'', word = ''lion''\<rparr>, \<lparr>player = ''Bob'', word = ''tiger''\<rparr>]"
    by (simp add: evals)
  from h1 h2 run C1_submissions_unique [OF h1 h2, of scenario_calls]
  show ?thesis by simp
qed

section \<open>Starting a round\<close>

text \<open>
  Claim C2. For every state and every sequence of random draws, the start request
  succeeds exactly when there are at least two submissions. With fewer it fails with
  InsufficientPlayers and changes nothing; with two or more the phase becomes Playing
  and the shuffled words are the words of the submissions, as a multiset.
\<close>

theorem C2_start_round:
  "((\<exists>r. fst (api_start rnd s) = Inr r) \<longleftrightarrow> 2 \<le> length (submissions s))
   \<and> (length (submissions s) < 2 \<longrightarrow> api_start rnd s = (Inl InsufficientPlayers, s))
   \<and> (2 \<le> length (submissions s) \<longrightarrow>
        fst (api_start rnd s) = Inr Ok
        \<and> phase (snd (api_start rnd s)) = Playing
        \<and> mset (shuffledWords (snd (api_start rnd s))) = mset (map word (submissions s))
        \<and> submissions (snd (api_start rnd s)) = submissions s)"
proof (cases "length (submissions s) < 2")
  case True
  then show ?thesis by (simp add: api_start_def)
next
  case False
  then have "api_start rnd s =
      (Inr Ok, s\<lparr>phase := Playing,
                 shuffledWords := map word (random_sort rnd (submissions s))\<rparr>)"
    by (simp add: api_start_def)
  with False show ?thesis
    by (simp add: mset_shuffled_words del: mset_map)
qed

theorem C2_start_round_witness:
  "2 \<le> length (submissions two_players)
   \<and> fst (api_start draws_low two_players) = Inr Ok
   \<and> phase (snd (api_start draws_low two_players)) = Playing
   \<and> shuffledWords (snd (api_start draws_low two_players)) = [''tiger'', ''lion'']
   \<and> mset (shuffledWords (snd (api_start draws_low two_players)))
       = mset (map word (submissions two_players))
   \<and> length (submissions one_player_keyed) < 2
   \<and> api_start draws_low one_player_keyed = (Inl InsufficientPlayers, one_player_keyed)"
proof -
  have two: "2 \<le> length (submissions two_players)"
    by (simp add: two_players_def)
  have one: "length (submissions one_player_keyed) < 2"
    by (simp add: one_player_keyed_def)
  have order: "shuffledWords (snd (api_start draws_low two_players)) = [''tiger'', ''lion'']"
    by (simp add: evals)
  from two one order
    C2_start_round [of draws_low two_players]
    C2_start_round [of draws_low one_player_keyed]
  show ?thesis by simp
qed

section \<open>Shuffled words and the phase\<close>

text \<open>
  Claim C3 says that in every state reachable from the fresh session the shuffled words
  are non-empty only in phase Playing. The key handler has no phase gate: a key that is
  accepted while a round is being played sets the phase back to Submission and leaves
  the shuffled words in place. Here: new round, two submissions, start, then a key.
\<close>

theorem C3_counterexample:
  "shuffledWords
     (run ascii_runtime createFreshState
        [NewRound,
         SubmitWord (Some (JStr ''Ann'')) (Some (JStr ''lion'')) chat_down,
         SubmitWord (Some (JStr ''Bob'')) (Some (JStr ''tiger'')) chat_down,
         StartRound draws_low,
         ConfigureSecret (Some ''gsk'') probe_ok]) = [''tiger'', ''lion'']
   \<and> phase
     (run ascii_runtime createFreshState
        [NewRound,
         SubmitWord (Some (JStr ''Ann'')) (Some (JStr ''lion'')) chat_down,
         SubmitWord (Some (JStr ''Bob'')) (Some (JStr ''tiger'')) chat_down,
         StartRound draws_low,
         ConfigureSecret (Some ''gsk'') probe_ok]) = Submission"
  by (simp add: evals)

text \<open>
  Claim C3, amended. In every state reached from the fresh session by a sequence of
  operations in which no key change succeeds during phase Playing, the shuffled words
  are non-empty only in phase Playing. A key change that does succeed during phase
  Playing sets the phase to Submission and keeps the shuffled words.
\<close>

theorem C3_shuffled_only_while_playing:
  "(rekey_free rt createFreshState ops \<longrightarrow>
      shuffledWords (run rt createFreshState ops) \<noteq> [] \<longrightarrow>
      phase (run rt createFreshState ops) = Playing)
   \<and> (rekeys_while_playing s (ConfigureSecret key fetch) \<longrightarrow>
        phase (step rt s (ConfigureSecret key fetch)) = Submission
        \<and> shuffledWords (step rt s (ConfigureSecret key fetch)) = shuffledWords s)"
proof -
  have "shuffledWords createFreshState \<noteq> [] \<longrightarrow> phase createFreshState = Playing"
    by (simp add: createFreshState_def)
  then have "rekey_free rt createFreshState ops \<Longrightarrow>
      shuffledWords (run rt createFreshState ops) \<noteq> [] \<longrightarrow>
      phase (run rt createFreshState ops) = Playing"
    by (rule run_keeps_shuffled_invariant)
  moreover have "rekeys_while_playing s (ConfigureSecret key fetch) \<Longrightarrow>
        phase (step rt s (ConfigureSecret key fetch)) = Submission
        \<and> shuffledWords (step rt s (ConfigureSecret key fetch)) = shuffledWords s"
    by (auto simp: api_set_key_def split: if_splits)
  ultimately show ?thesis by blast
qed

theorem C3_shuffled_only_while_playing_witness:
  "rekey_free ascii_runtime createFreshState
     [ConfigureSecret (Some ''gsk'') probe_ok,
      SubmitWord (Some (JStr ''Ann'')) (Some (JStr ''lion'')) chat_down,
      SubmitWord (Some (JStr ''Bob'')) (Some (JStr ''tiger'')) chat_down,
      StartRound draws_low,
      ConfigureSecret (Some ''other'') probe_denied,
      GetWords]
   \<and> shuffledWords
       (run ascii_runtime createFreshState
          [ConfigureSecret (Some ''gsk'') probe_ok,
           SubmitWord (Some (JStr ''Ann'')) (Some (JStr ''lion'')) chat_down,
           SubmitWord (Some (JStr ''Bob'')) (Some (JStr ''tiger'')) chat_down,
           StartRound draws_low,
           ConfigureSecret (Some ''other'') probe_denied,
           GetWords]) = [''tiger'', ''lion'']
   \<and> phase
       (run ascii_runtime createFreshState
          [ConfigureSecret (Some ''gsk'') probe_ok,
           SubmitWord (Some (JStr ''Ann'')) (Some (JStr ''lion'')) chat_down,
           SubmitWord (Some (JStr ''Bob'')) (Some (JStr ''tiger'')) chat_down,
           StartRound draws_low,
           ConfigureSecret (Some ''other'') probe_denied,
           GetWords]) = Playing
   \<and> rekeys_while_playing (snd (api_start draws_low two_players))
        (ConfigureSecret (Some ''gsk'') probe_ok)
   \<and> phase (step ascii_runtime (snd (api_start draws_low two_players))
        (ConfigureSecret (Some ''gsk'') probe_ok)) = Submission"
proof -
  let ?ops = "[ConfigureSecret (Some ''gsk'') probe_ok,
      SubmitWord (Some (JStr ''Ann'')) (Some (JStr ''lion'')) chat_down,
      SubmitWord (Some (JStr ''Bob'')) (Some (JStr ''tiger'')) chat_down,
      StartRound draws_low,
      ConfigureSecret (Some ''other'') probe_denied,
      GetWords]"
  have free: "rekey_free ascii_runtime createFreshState ?ops"
    by (simp add: evals)
  have words: "shuffledWords (run ascii_runtime createFreshState ?ops) = [''tiger'', ''lion'']"
    by (simp add: evals)
  have rekey: "rekeys_while_playing (snd (api_start draws_low two_players))
        (ConfigureSecret (Some ''gsk'') probe_ok)"
    by (simp add: evals)
  from free words rekey
    C3_shuffled_only_while_playing
      [of ascii_runtime ?ops "snd (api_start draws_low two_players)" "Some ''gsk''" probe_ok]
  show ?thesis by simp
qed

section \<open>Starting a round twice\<close>

text \<open>
  Claim C4 says that after a successful start every further start before a reset fails,
  so that the words are shuffled once per round; the comment on the field in the source
  says the same (randomized once on game start). The start handler checks the number
  of submissions and nothing else, where the submit, words and attribution handlers
  check the phase. At the failing input, a second start request in phase Playing with
  no reset in between, the handler answers ok again and shuffles again: the first
  start, with draws above one half, leaves the words in the order of submission, and
  the second, with draws below, turns them round.
\<close>

theorem C4_second_start:
  "fst (api_start draws_high two_players) = Inr Ok
   \<and> phase (snd (api_start draws_high two_players)) = Playing
   \<and> shuffledWords (snd (api_start draws_high two_players)) = [''lion'', ''tiger'']
   \<and> fst (api_start draws_low (snd (api_start draws_high two_players))) = Inr Ok
   \<and> shuffledWords (snd (api_start draws_low (snd (api_start draws_high two_players))))
       = [''tiger'', ''lion'']"
  by (simp add: evals)

section \<open>Submitting a word\<close>

text \<open>
  Claim C5 says that for every pair of request fields and every state the submit
  request fails with PhaseMismatch, MissingField, DuplicatePlayer or DuplicateWord, in
  this order of the checks, or is accepted and appends the normalized entry. For
  fields that are strings, or falsy, the handler does so (\<open>submit_on_strings\<close>). Its
  checks for a missing field miss a field that is not a string: at the failing input,
  the word 5 in phase Submission, the call of \<^verbatim>\<open>trim\<close> throws, and the handler
  ends with a TypeError in place of any of these answers; so it does for a player
  name that is \<^verbatim>\<open>true\<close>. The state is as it was.
\<close>

theorem C5_submit_non_string:
  "api_submit ascii_runtime chat_down (Some (JStr ''Cy'')) (Some (JNum 5)) two_players
     = (Inl TypeError, two_players)
   \<and> api_submit ascii_runtime chat_down (Some (JBool True)) (Some (JStr ''bear'')) two_players
     = (Inl TypeError, two_players)"
  by (simp add: evals)

section \<open>The similarity check and its answers\<close>

text \<open>
  Claim C6 says that a submit request which passes the phase, missing-field and
  duplicate checks is accepted when the chat endpoint is unreachable or answers with an
  error, with something that is not JSON or with a malformed response, and is refused
  with SimilarWord only when a well-formed response reports a match. When the chat
  request ends without a parsed object the handler does accept
  (\<open>unavailable_not_similar\<close>). A parsed object is tested for the truthiness of its
  property \<^verbatim>\<open>is_similar\<close>, where the prompt asks for \<^verbatim>\<open>true\<close> or \<^verbatim>\<open>false\<close>: at the
  failing input, an answer whose \<^verbatim>\<open>is_similar\<close> is the string \<^verbatim>\<open>"false"\<close>, the
  request is refused with SimilarWord and the word is not stored; so it is for an empty
  array. The same request with the boolean \<^verbatim>\<open>false\<close> is accepted.
\<close>

theorem C6_string_false_refused:
  "api_submit ascii_runtime (chat_says (JStr ''false'')) (Some (JStr ''Bob''))
     (Some (JStr ''Lioness'')) one_player_keyed
     = (Inl SimilarWord, one_player_keyed)
   \<and> api_submit ascii_runtime (chat_says (JArr [])) (Some (JStr ''Bob''))
     (Some (JStr ''Lioness'')) one_player_keyed
     = (Inl SimilarWord, one_player_keyed)
   \<and> api_submit ascii_runtime (chat_says (JBool False)) (Some (JStr ''Bob''))
     (Some (JStr ''Lioness'')) one_player_keyed
     = (Inr (OkCount 2),
        one_player_keyed\<lparr>submissions :=
          [\<lparr>player = ''Ann'', word = ''lion''\<rparr>, \<lparr>player = ''Bob'', word = ''lioness''\<rparr>]\<rparr>)"
  by (simp add: evals)

section \<open>The key check fails closed\<close>

text \<open>
  Claim C7. For every key that reaches the validator and every state: when the probe
  is answered with a status that is not ok, or cannot be sent at all, the validator
  returns false, the request fails with InvalidCredential and the state is unchanged;
  from the fresh session the phase stays Setup and no key is stored. Both outcomes of
  the probe give the same result. The keys that reach the validator are the non-empty
  ones: a request without a key, or with the empty string, is answered with
  \<^verbatim>\<open>Key required\<close> before the validator is asked.
\<close>

theorem C7_invalid_credential:
  assumes "key \<noteq> []"
    and "fetch key = ProbeResponse False \<or> fetch key = ProbeRejected"
  shows "\<not> validateApiKey fetch key
         \<and> api_set_key fetch (Some key) s = (Inl InvalidCredential, s)
         \<and> phase (snd (api_set_key fetch (Some key) createFreshState)) = Setup
         \<and> groqApiKey (snd (api_set_key fetch (Some key) createFreshState)) = None"
proof -
  from assms(2) have invalid: "\<not> validateApiKey fetch key"
    by (auto simp: validateApiKey_def)
  with assms(1) have "api_set_key fetch (Some key) t = (Inl InvalidCredential, t)" for t
    by (simp add: api_set_key_def js_not_def or_empty_def)
  with invalid show ?thesis
    by (simp add: createFreshState_def)
qed

theorem C7_invalid_credential_witness:
  "api_set_key probe_denied (Some ''gsk'') two_players = (Inl InvalidCredential, two_players)
   \<and> api_set_key probe_down (Some ''gsk'') two_players = (Inl InvalidCredential, two_players)
   \<and> phase (snd (api_set_key probe_down (Some ''gsk'') createFreshState)) = Setup"
proof -
  have h1: "''gsk'' \<noteq> []" by simp
  have h2: "probe_denied ''gsk'' = ProbeResponse False \<or> probe_denied ''gsk'' = ProbeRejected"
    by (simp add: probe_denied_def)
  have h3: "probe_down ''gsk'' = ProbeResponse False \<or> probe_down ''gsk'' = ProbeRejected"
    by (simp add: probe_down_def)
  from C7_invalid_credential [of "''gsk''" probe_denied two_players, OF h1 h2]
    C7_invalid_credential [of "''gsk''" probe_down two_players, OF h1 h3]
  show ?thesis by simp
qed

section \<open>Resets\<close>

text \<open>
  Claim C8. For every state, the new-round reset succeeds and yields phase Submission,
  no submissions, no shuffled words and the key it found; the full reset succeeds and
  yields the fresh state: phase Setup, no submissions, no shuffled words, no key.
\<close>

theorem C8_resets:
  "api_reset s =
     (Inr Ok, \<lparr>phase = Submission, groqApiKey = groqApiKey s,
               submissions = [], shuffledWords = []\<rparr>)
   \<and> api_full_reset s =
     (Inr Ok, \<lparr>phase = Setup, groqApiKey = None,
               submissions = [], shuffledWords = []\<rparr>)
   \<and> snd (api_full_reset s) = createFreshState"
  by (simp add: api_reset_def api_full_reset_def createFreshState_def)

section \<open>Reading the words\<close>

text \<open>
  Claim C9. For every state, the words request and the attribution request fail with
  NotStarted when the phase is not Playing; in phase Playing the first returns the
  shuffled words and the second the submissions; in both cases the state is unchanged.
\<close>

theorem C9_words_and_attribution:
  "(phase s \<noteq> Playing \<longrightarrow>
      api_words s = (Inl NotStarted, s) \<and> api_attribution s = (Inl NotStarted, s))
   \<and> (phase s = Playing \<longrightarrow>
      api_words s = (Inr (Words (shuffledWords s)), s)
      \<and> api_attribution s = (Inr (Attribution (submissions s)), s))"
  by (simp add: api_words_def api_attribution_def)

theorem C9_words_and_attribution_witness:
  "api_words two_players = (Inl NotStarted, two_players)
   \<and> api_attribution two_players = (Inl NotStarted, two_players)
   \<and> fst (api_words (snd (api_start draws_low two_players)))
       = Inr (Words [''tiger'', ''lion''])
   \<and> fst (api_attribution (snd (api_start draws_low two_players)))
       = Inr (Attribution [\<lparr>player = ''Ann'', word = ''lion''\<rparr>,
                           \<lparr>player = ''Bob'', word = ''tiger''\<rparr>])
   \<and> snd (api_words (snd (api_start draws_low two_players)))
       = snd (api_start draws_low two_players)"
proof -
  have h1: "phase two_players \<noteq> Playing"
    by (simp add: two_players_def)
  have h2: "phase (snd (api_start draws_low two_players)) = Playing"
    by (simp add: evals)
  have vals: "shuffledWords (snd (api_start draws_low two_players)) = [''tiger'', ''lion'']"
    "submissions (snd (api_start draws_low two_players)) =
       [\<lparr>player = ''Ann'', word = ''lion''\<rparr>, \<lparr>player = ''Bob'', word = ''tiger''\<rparr>]"
    by (simp_all add: evals)
  from h1 h2 C9_words_and_attribution [of two_players]
    C9_words_and_attribution [of "snd (api_start draws_low two_players)"]
  show ?thesis by (simp add: vals)
qed

section \<open>When the similarity check is skipped\<close>

text \<open>
  Claim C10. When there is no submission yet, or no key is set, \<^verbatim>\<open>checkSimilarity\<close>
  returns \<^verbatim>\<open>null\<close> without sending a request: the submit request gives the same
  response and state whatever the chat endpoint is, and never fails with SimilarWord.
  A submit request does not change the key, so in a session without a key a whole
  sequence of submit requests ends in the same state whatever the chat endpoints are.
  The new-round reset of the fresh session is such a session, in phase Submission.
\<close>

theorem C10_similarity_skipped:
  "(submissions s = [] \<or> js_not (groqApiKey s) \<longrightarrow>
      checkSimilarity fetch newWord (map word (submissions s)) (groqApiKey s) = None
      \<and> api_submit rt fetch p w s = api_submit rt fetch' p w s
      \<and> fst (api_submit rt fetch p w s) \<noteq> Inl SimilarWord)
   \<and> groqApiKey (snd (api_submit rt fetch p w s)) = groqApiKey s
   \<and> (js_not (groqApiKey s) \<longrightarrow>
        submit_all rt s (map (\<lambda>(p, w, fetch). (p, w, g fetch)) calls) = submit_all rt s calls)
   \<and> groqApiKey (snd (api_reset createFreshState)) = None
   \<and> phase (snd (api_reset createFreshState)) = Submission"
proof -
  have skipped: "checkSimilarity fetch nw (map word (submissions s)) (groqApiKey s) = None"
    if "submissions s = [] \<or> js_not (groqApiKey s)" for nw
    using that by (simp add: check_skipped)
  have "fst (api_submit rt fetch p w s) \<noteq> Inl SimilarWord"
    if "submissions s = [] \<or> js_not (groqApiKey s)"
    using skipped [OF that]
    by (simp add: api_submit_def Let_def sim_is_similar_def cleanWord_of_def
          cleanName_of_def split: sum.splits jsval.splits)
  moreover have "api_submit rt fetch p w s = api_submit rt fetch' p w s"
    if "submissions s = [] \<or> js_not (groqApiKey s)"
    using that by (rule submit_without_check)
  moreover have "submit_all rt s (map (\<lambda>(p, w, fetch). (p, w, g fetch)) calls)
      = submit_all rt s calls"
    if "js_not (groqApiKey s)"
    using that by (rule submit_all_without_key)
  moreover have "groqApiKey (snd (api_reset createFreshState)) = None"
    "phase (snd (api_reset createFreshState)) = Submission"
    by (simp_all add: api_reset_def createFreshState_def)
  ultimately show ?thesis
    using skipped by (simp add: submit_key)
qed

theorem C10_similarity_skipped_witness:
  "submissions (snd (api_reset createFreshState)) = []
   \<and> js_not (groqApiKey two_players)
   \<and> api_submit ascii_runtime (chat_says (JBool True)) (Some (JStr ''Ann''))
       (Some (JStr ''Lion'')) (snd (api_reset createFreshState))
     = api_submit ascii_runtime chat_down (Some (JStr ''Ann''))
       (Some (JStr ''Lion'')) (snd (api_reset createFreshState))
   \<and> fst (api_submit ascii_runtime (chat_says (JBool True)) (Some (JStr ''Ann''))
       (Some (JStr ''Lion'')) (snd (api_reset createFreshState))) = Inr (OkCount 1)
   \<and> fst (api_submit ascii_runtime (chat_says (JBool True)) (Some (JStr ''Cy''))
       (Some (JStr ''Lioness'')) two_players) = Inr (OkCount 3)"
proof -
  have h1: "submissions (snd (api_reset createFreshState)) = []"
    by (simp add: api_reset_def createFreshState_def)
  have h2: "js_not (groqApiKey two_players)"
    by (simp add: two_players_def js_not_def)
  have v1: "fst (api_submit ascii_runtime chat_down (Some (JStr ''Ann''))
       (Some (JStr ''Lion'')) (snd (api_reset createFreshState))) = Inr (OkCount 1)"
    by (simp add: evals)
  have v2: "fst (api_submit ascii_runtime chat_down (Some (JStr ''Cy''))
       (Some (JStr ''Lioness'')) two_players) = Inr (OkCount 3)"
    by (simp add: evals)
  from h1 h2 v1 v2
    C10_similarity_skipped
      [of "snd (api_reset createFreshState)" "chat_says (JBool True)" "[]" ascii_runtime
          "Some (JStr ''Ann'')" "Some (JStr ''Lion'')" chat_down id "[]"]
    C10_similarity_skipped
      [of two_players "chat_says (JBool True)" "[]" ascii_runtime
          "Some (JStr ''Cy'')" "Some (JStr ''Lioness'')" chat_down id "[]"]
  show ?thesis by simp
qed

end
